theory Spec2Isabelle
  imports Complex_Main "HOL-Library.Multiset"
begin

section \<open>Python values used by the pipeline\<close>

text \<open>
  Strings are lists of characters; a character stands for a code point below 256, so
  \<open>str.lower\<close> and \<open>str.strip\<close> are modelled on that range. A \<open>dict\<close> is
  its list of items in insertion order; \<open>d.get(k)\<close> is \<open>map_of d k\<close>.
\<close>

type_synonym tags = "(string \<times> string) list"

datatype exn =
    Timeout
  | ConnectionError
  | HTTPError
  | JSONDecodeError
  | AttributeError
  | KeyError string
  | IndexError
  | ZeroDivisionError
  | OverflowError
  | ValueError
  | TypeError

definition lower_char :: "char \<Rightarrow> char" where
  "lower_char c =
     (let n = (of_char c :: nat)
      in if (65 \<le> n \<and> n \<le> 90) \<or> (192 \<le> n \<and> n \<le> 222 \<and> n \<noteq> 215)
         then char_of (n + 32) else c)"

definition lower :: "string \<Rightarrow> string" where
  "lower s = map lower_char s"

definition isspace :: "char \<Rightarrow> bool" where
  "isspace c = ((of_char c :: nat) \<in> set [9, 10, 11, 12, 13, 28, 29, 30, 31, 32, 133, 160])"

definition strip :: "string \<Rightarrow> string" where
  "strip s = rev (dropWhile isspace (rev (dropWhile isspace s)))"

fun startswith :: "string \<Rightarrow> string \<Rightarrow> bool" where
  "startswith s [] = True"
| "startswith [] (p # ps) = False"
| "startswith (c # cs) (p # ps) = (c = p \<and> startswith cs ps)"

text \<open>\<open>contains sub s\<close> is Python's \<open>sub in s\<close> on strings.\<close>

fun contains :: "string \<Rightarrow> string \<Rightarrow> bool" where
  "contains sub [] = (sub = [])"
| "contains sub (c # cs) = (startswith (c # cs) sub \<or> contains sub cs)"

text \<open>\<open>split sep s\<close> is \<open>s.split(sep)\<close> for a one-character separator.\<close>

fun split :: "char \<Rightarrow> string \<Rightarrow> string list" where
  "split sep [] = [[]]"
| "split sep (c # cs) =
     (if c = sep then [] # split sep cs
      else (case split sep cs of [] \<Rightarrow> [[c]] | seg # segs \<Rightarrow> (c # seg) # segs))"

text \<open>
  \<open>fromkeys xs\<close> is \<open>list(dict.fromkeys(xs))\<close>: the keys are inserted from left to
  right, and a key that is already present keeps its place.
\<close>

definition fromkeys :: "'a list \<Rightarrow> 'a list" where
  "fromkeys xs = foldl (\<lambda>d x. if x \<in> set d then d else d @ [x]) [] xs"

section \<open>Python numbers\<close>

text \<open>
  The coordinates of a stop, the clock and every quantity computed from them are Python
  floats. Their arithmetic is a parameter of the model: a value of type \<open>'f\<close> is a
  Python float, and a record of type \<open>'f arith\<close> gives the operations the dashboard
  uses, each named after the Python expression it stands for. An operation that can raise
  returns a sum.
  \<^item> \<open>of_pyint i\<close>: the int \<open>i\<close> as an operand of mixed arithmetic;
    \<open>of_literal r\<close>: the float written as the decimal literal \<open>r\<close>;
  \<^item> \<open>int_truediv a b\<close>: \<open>a / b\<close> on two ints;
  \<^item> \<open>f_add\<close>, \<open>f_sub\<close>, \<open>f_mul\<close>, \<open>f_truediv\<close>, \<open>f_mod\<close>:
    \<open>+\<close>, \<open>-\<close>, \<open>*\<close>, \<open>/\<close>, \<open>%\<close>;
  \<^item> \<open>f_square x\<close>: \<open>x ** 2\<close>; \<open>f_root x\<close>: \<open>x ** 0.5\<close>;
  \<^item> \<open>f_lt x y\<close>: \<open>x < y\<close> (and \<open>y > x\<close>); \<open>f_int x\<close>: \<open>int(x)\<close>;
  \<^item> \<open>f_finite x\<close>: \<open>x\<close> is neither an infinity nor NaN.
  The model of IEEE binary64 arithmetic below (\<open>double_arith\<close>) is one such record.
\<close>

record 'f arith =
  of_pyint :: "int \<Rightarrow> 'f"
  of_literal :: "real \<Rightarrow> 'f"
  int_truediv :: "int \<Rightarrow> int \<Rightarrow> exn + 'f"
  f_add :: "'f \<Rightarrow> 'f \<Rightarrow> 'f"
  f_sub :: "'f \<Rightarrow> 'f \<Rightarrow> 'f"
  f_mul :: "'f \<Rightarrow> 'f \<Rightarrow> 'f"
  f_truediv :: "'f \<Rightarrow> 'f \<Rightarrow> exn + 'f"
  f_mod :: "'f \<Rightarrow> 'f \<Rightarrow> exn + 'f"
  f_square :: "'f \<Rightarrow> exn + 'f"
  f_root :: "'f \<Rightarrow> exn + 'f"
  f_lt :: "'f \<Rightarrow> 'f \<Rightarrow> bool"
  f_int :: "'f \<Rightarrow> exn + int"
  f_finite :: "'f \<Rightarrow> bool"

text \<open>
  The values of a binary64 float: a finite number, an infinity or NaN. The two zeros are one
  value: no operation used here tells them apart, and \<open>==\<close> does not either.
\<close>

datatype double = Fin real | PInf | NInf | NaN

section \<open>pipeline.py: TransportType\<close>

datatype transport_type = BUS | SUBWAY | TRAM | TRAIN | FERRY | LIGHT_RAIL

definition from_osm_tags :: "tags \<Rightarrow> transport_type option" where
  "from_osm_tags tags =
     (if map_of tags ''highway'' = Some ''bus_stop'' then Some BUS
      else
        let railway = map_of tags ''railway'' in
        if railway = Some ''station'' then Some SUBWAY
        else if railway = Some ''tram_stop'' then Some TRAM
        else if railway = Some ''halt'' then Some TRAIN
        else if map_of tags ''amenity'' = Some ''ferry_terminal'' then Some FERRY
        else if map_of tags ''public_transport'' \<in> set [Some ''stop_position'', Some ''platform'']
        then
          (if contains ''bus'' (lower (case map_of tags ''bus'' of None \<Rightarrow> [] | Some v \<Rightarrow> v))
           then Some BUS
           else if contains ''tram'' (lower (case map_of tags ''tram'' of None \<Rightarrow> [] | Some v \<Rightarrow> v))
           then Some TRAM
           else None)
        else None)"

section \<open>pipeline.py: TransportStop\<close>

record 'f transport_stop =
  osm_id :: string
  name :: string
  latitude :: 'f
  longitude :: 'f
  transport_type :: transport_type
  operator :: "string option"
  network :: "string option"
  routes :: "string list"
  ref :: "string option"
  wheelchair_accessible :: bool
  has_shelter :: bool
  has_bench :: bool
  has_tactile_paving :: bool
  metadata :: tags

text \<open>
  \<open>_extract_routes\<close>: the \<open>lines\<close> value is split on \<open>;\<close>, the loop over
  \<open>tags.items()\<close> appends every non-empty value whose key contains \<open>route\<close>, then
  every collected entry is stripped, the blank ones are dropped, duplicates are removed through
  \<open>dict.fromkeys\<close> and the list is cut to five entries.
\<close>

definition extract_routes :: "tags \<Rightarrow> string list" where
  "extract_routes tags =
     (let routes = [];
          routes = (case map_of tags ''lines'' of
                      Some v \<Rightarrow> routes @ split CHR '';'' v
                    | None \<Rightarrow> routes);
          routes = foldl (\<lambda>rs (key, val). if contains ''route'' (lower key) \<and> val \<noteq> []
                                        then rs @ [val] else rs) routes tags;
          routes = map strip (filter (\<lambda>r. strip r \<noteq> []) routes)
      in take 5 (fromkeys routes))"

subsection \<open>Route extraction as the specification words it\<close>

text \<open>\<open>first_seen\<close> removes duplicates and keeps each entry at its first occurrence.\<close>

fun first_seen :: "'a list \<Rightarrow> 'a list" where
  "first_seen [] = []"
| "first_seen (x # xs) = x # first_seen (removeAll x xs)"

definition lines_segments :: "tags \<Rightarrow> string list" where
  "lines_segments tags =
     (case map_of tags ''lines'' of Some v \<Rightarrow> split CHR '';'' v | None \<Rightarrow> [])"

text \<open>The non-empty values of the keys that contain \<open>route\<close>, in the order of the bag.\<close>

definition route_values :: "tags \<Rightarrow> string list" where
  "route_values tags =
     map snd (filter (\<lambda>(key, val). contains ''route'' (lower key) \<and> val \<noteq> []) tags)"

definition other_route_values :: "tags \<Rightarrow> string list" where
  "other_route_values tags =
     map snd (filter (\<lambda>(key, val). key \<noteq> ''lines'' \<and> contains ''route'' (lower key) \<and> val \<noteq> [])
       tags)"

text \<open>The entries trimmed, without those that are empty after trimming.\<close>

definition trimmed :: "string list \<Rightarrow> string list" where
  "trimmed xs = filter (\<lambda>s. s \<noteq> []) (map strip xs)"

text \<open>
  The specification's wording: trimmed non-empty segments of \<open>lines\<close>, then the non-empty
  values of every other \<open>route\<close> key as they stand, deduplicated, at most five.
\<close>

definition claimed_routes :: "tags \<Rightarrow> string list" where
  "claimed_routes tags =
     take 5 (first_seen (trimmed (lines_segments tags) @ other_route_values tags))"

text \<open>The same with the \<open>route\<close> values trimmed as well.\<close>

definition trimmed_routes :: "tags \<Rightarrow> string list" where
  "trimmed_routes tags =
     take 5 (first_seen (trimmed (lines_segments tags) @ trimmed (route_values tags)))"

text \<open>
  A raw element of the Overpass response is a \<open>dict\<close>; the model keeps the five keys
  the code reads, each \<open>None\<close> when the key is missing. The \<open>tags\<close> value, when
  present, is a dict from strings to strings, as \<open>from_osm_tags\<close> declares.
\<close>

record 'f osm_element =
  el_type :: "string option"
  el_id :: "int option"
  el_lat :: "'f option"
  el_lon :: "'f option"
  el_tags :: "tags option"

text \<open>\<open>str(i)\<close> for an integer.\<close>

fun str_nat :: "nat \<Rightarrow> string" where
  "str_nat n =
     (if n < 10 then [char_of (48 + n)] else str_nat (n div 10) @ [char_of (48 + n mod 10)])"

definition str_int :: "int \<Rightarrow> string" where
  "str_int i = (if i < 0 then CHR ''-'' # str_nat (nat (- i)) else str_nat (nat i))"

text \<open>
  \<open>from_osm_element\<close>: \<open>element['id']\<close>, \<open>element['lat']\<close> and
  \<open>element['lon']\<close> are subscripts, evaluated in this order while the arguments of the
  constructor are built; a missing key raises \<open>KeyError\<close>.
\<close>

definition from_osm_element :: "'f osm_element \<Rightarrow> exn + 'f transport_stop option" where
  "from_osm_element element =
     (if el_type element \<noteq> Some ''node'' then Inr None
      else
        let tags = (case el_tags element of None \<Rightarrow> [] | Some t \<Rightarrow> t) in
        (case from_osm_tags tags of
           None \<Rightarrow> Inr None
         | Some ttype \<Rightarrow>
             let rs = extract_routes tags in
             (case el_id element of
                None \<Rightarrow> Inl (KeyError ''id'')
              | Some i \<Rightarrow>
                  (case el_lat element of
                     None \<Rightarrow> Inl (KeyError ''lat'')
                   | Some lat \<Rightarrow>
                       (case el_lon element of
                          None \<Rightarrow> Inl (KeyError ''lon'')
                        | Some lon \<Rightarrow>
                            Inr (Some
                              \<lparr> osm_id = str_int i,
                                name = (case map_of tags ''name'' of
                                          None \<Rightarrow> ''Unnamed Stop'' | Some n \<Rightarrow> n),
                                latitude = lat,
                                longitude = lon,
                                transport_type = ttype,
                                operator = map_of tags ''operator'',
                                network = map_of tags ''network'',
                                routes = rs,
                                ref = map_of tags ''ref'',
                                wheelchair_accessible = (map_of tags ''wheelchair'' = Some ''yes''),
                                has_shelter = (map_of tags ''shelter'' = Some ''yes''),
                                has_bench = (map_of tags ''bench'' = Some ''yes''),
                                has_tactile_paving = (map_of tags ''tactile_paving'' = Some ''yes''),
                                metadata = tags \<rparr>))))))"

section \<open>pipeline.py: UrbanMobilityPipeline\<close>

text \<open>
  The pipeline object holds the \<open>stats\<close> dict. The model adds the log of the two effects
  of \<open>fetch_transport_stops\<close> on the outside world, oldest first: a request sent with
  \<open>requests.post\<close>, and a call of \<open>time.sleep\<close> with its delay.
\<close>

datatype effect = Post | Sleep int

record pipeline =
  stops_processed :: int
  stops_failed :: int
  api_calls :: int
  errors :: "string list"
  effects :: "effect list"

definition init_pipeline :: pipeline where
  "init_pipeline =
     \<lparr> stops_processed = 0, stops_failed = 0, api_calls = 0, errors = [], effects = [] \<rparr>"

text \<open>
  What one request gives. \<open>Raises e\<close>: \<open>requests.post\<close> or
  \<open>raise_for_status\<close> raises \<open>e\<close>. Otherwise a body arrives: one that is not
  JSON, JSON that is not an object, or an object with its \<open>elements\<close> list (\<open>None\<close>
  when the key is missing).
\<close>

datatype 'f body = NotJson | NotObject | Object "'f osm_element list option"

datatype 'f http_outcome = Raises exn | Responds "'f body"

text \<open>
  The \<open>except\<close> clauses select by class. In the \<open>requests\<close> library that
  \<open>setup.py\<close> requires (2.31.0 or later), \<open>Response.json()\<close> reports a body that
  is not JSON as \<open>requests.exceptions.JSONDecodeError\<close>, a subclass of
  \<open>RequestException\<close>, as are \<open>Timeout\<close>, \<open>ConnectionError\<close> and
  \<open>HTTPError\<close>.
\<close>

definition isinstance_Timeout :: "exn \<Rightarrow> bool" where
  "isinstance_Timeout e = (e = Timeout)"

definition isinstance_RequestException :: "exn \<Rightarrow> bool" where
  "isinstance_RequestException e = (e \<in> set [Timeout, ConnectionError, HTTPError, JSONDecodeError])"

definition max_retries :: nat where
  "max_retries = 3"

definition retry_delay :: int where
  "retry_delay = 5"

definition sleep :: "int \<Rightarrow> pipeline \<Rightarrow> pipeline" where
  "sleep d p = p\<lparr>effects := effects p @ [Sleep d]\<rparr>"

text \<open>The loop over the elements; the counters already updated stay so when an element raises.\<close>

fun parse_elements ::
  "'f osm_element list \<Rightarrow> 'f transport_stop list \<Rightarrow> pipeline
   \<Rightarrow> (exn + 'f transport_stop list) \<times> pipeline"
where
  "parse_elements [] stops p = (Inr stops, p)"
| "parse_elements (element # rest) stops p =
     (case from_osm_element element of
        Inl e \<Rightarrow> (Inl e, p)
      | Inr (Some stop) \<Rightarrow>
          parse_elements rest (stops @ [stop]) (p\<lparr>stops_processed := stops_processed p + 1\<rparr>)
      | Inr None \<Rightarrow>
          parse_elements rest stops (p\<lparr>stops_failed := stops_failed p + 1\<rparr>))"

text \<open>The body of the \<open>try\<close> block of one attempt.\<close>

definition try_body ::
  "'f http_outcome \<Rightarrow> pipeline \<Rightarrow> (exn + 'f transport_stop list) \<times> pipeline" where
  "try_body outcome p =
     (let p = p\<lparr>effects := effects p @ [Post]\<rparr> in
      case outcome of
        Raises e \<Rightarrow> (Inl e, p)
      | Responds NotJson \<Rightarrow> (Inl JSONDecodeError, p)
      | Responds NotObject \<Rightarrow> (Inl AttributeError, p)
      | Responds (Object elements) \<Rightarrow>
          parse_elements (case elements of None \<Rightarrow> [] | Some es \<Rightarrow> es) [] p)"

text \<open>
  \<open>for attempt in range(max_retries)\<close>, with the two \<open>except\<close> clauses in the
  order of the source; \<open>net attempt\<close> is what the request of that attempt gives.
\<close>

fun attempts ::
  "(nat \<Rightarrow> 'f http_outcome) \<Rightarrow> nat list \<Rightarrow> pipeline
   \<Rightarrow> (exn + 'f transport_stop list) \<times> pipeline"
where
  "attempts net [] p = (Inr [], p)"
| "attempts net (attempt # rest) p =
     (case try_body (net attempt) p of
        (Inr stops, p') \<Rightarrow> (Inr stops, p')
      | (Inl e, p') \<Rightarrow>
          if isinstance_Timeout e then
            (if attempt < max_retries - 1 then attempts net rest (sleep retry_delay p')
             else (Inl e, p'))
          else if isinstance_RequestException e then
            (if attempt < max_retries - 1 then attempts net rest (sleep retry_delay p')
             else (Inl e, p'))
          else (Inl e, p'))"

definition fetch_transport_stops ::
  "(nat \<Rightarrow> 'f http_outcome) \<Rightarrow> pipeline \<Rightarrow> (exn + 'f transport_stop list) \<times> pipeline"
where
  "fetch_transport_stops net p =
     attempts net [0..<max_retries] (p\<lparr>api_calls := api_calls p + 1\<rparr>)"

subsection \<open>calculate_metrics\<close>

definition truediv :: "real \<Rightarrow> real \<Rightarrow> exn + real" where
  "truediv a b = (if b = 0 then Inl ZeroDivisionError else Inr (a / b))"

text \<open>\<open>round(x, 2)\<close> on the idealised floats: to the nearest hundredth, ties to even.\<close>

definition round_half_even :: "real \<Rightarrow> int" where
  "round_half_even x =
     (let f = \<lfloor>x\<rfloor>; d = x - of_int f
      in if d < 1 / 2 then f else if 1 / 2 < d then f + 1 else if even f then f else f + 1)"

definition round2 :: "real \<Rightarrow> real" where
  "round2 x = of_int (round_half_even (x * 100)) / 100"

text \<open>\<open>round(n / total * 100, 2)\<close>\<close>

definition pct :: "int \<Rightarrow> int \<Rightarrow> exn + real" where
  "pct cnt tot =
     (case truediv (of_int cnt) (of_int tot) of
        Inl e \<Rightarrow> Inl e
      | Inr q \<Rightarrow> Inr (round2 (q * 100)))"

definition type_value :: "transport_type \<Rightarrow> string" where
  "type_value t =
     (case t of BUS \<Rightarrow> ''bus'' | SUBWAY \<Rightarrow> ''subway'' | TRAM \<Rightarrow> ''tram'' | TRAIN \<Rightarrow> ''train''
      | FERRY \<Rightarrow> ''ferry'' | LIGHT_RAIL \<Rightarrow> ''light_rail'')"

text \<open>\<open>d[k] = v\<close> on a dict kept as its item list.\<close>

fun setitem :: "('k \<times> 'v) list \<Rightarrow> 'k \<Rightarrow> 'v \<Rightarrow> ('k \<times> 'v) list" where
  "setitem [] k v = [(k, v)]"
| "setitem ((k', v') # d) k v = (if k' = k then (k, v) # d else (k', v') # setitem d k v)"

text \<open>\<open>sum(1 for s in stops if P s)\<close>\<close>

definition count_if :: "('a \<Rightarrow> bool) \<Rightarrow> 'a list \<Rightarrow> int" where
  "count_if P xs = int (length (filter P xs))"

record metrics =
  total_stops :: int
  by_type :: "(string \<times> int) list"
  accessibility :: "(string \<times> real) list"

definition calculate_metrics :: "'f transport_stop list \<Rightarrow> exn + metrics" where
  "calculate_metrics stops =
     (if stops = [] then Inr \<lparr> total_stops = 0, by_type = [], accessibility = [] \<rparr>
      else
        let total = int (length stops);
            by_type = foldl (\<lambda>d stop.
                         let type_name = type_value (transport_type stop)
                         in setitem d type_name
                              ((case map_of d type_name of None \<Rightarrow> 0 | Some c \<Rightarrow> c) + 1))
                       [] stops;
            wheelchair = count_if wheelchair_accessible stops;
            shelter = count_if has_shelter stops;
            bench = count_if has_bench stops;
            tactile = count_if has_tactile_paving stops;
            with_routes = count_if (\<lambda>s. routes s \<noteq> []) stops
        in
        (case pct wheelchair total of Inl e \<Rightarrow> Inl e | Inr wheelchair_pct \<Rightarrow>
        (case pct shelter total of Inl e \<Rightarrow> Inl e | Inr shelter_pct \<Rightarrow>
        (case pct bench total of Inl e \<Rightarrow> Inl e | Inr bench_pct \<Rightarrow>
        (case pct tactile total of Inl e \<Rightarrow> Inl e | Inr tactile_pct \<Rightarrow>
        (case pct with_routes total of Inl e \<Rightarrow> Inl e | Inr routes_pct \<Rightarrow>
           Inr \<lparr> total_stops = total,
                 by_type = by_type,
                 accessibility =
                   [(''wheelchair_accessible'', of_int wheelchair),
                    (''wheelchair_pct'', wheelchair_pct),
                    (''with_shelter'', of_int shelter),
                    (''shelter_pct'', shelter_pct),
                    (''with_bench'', of_int bench),
                    (''bench_pct'', bench_pct),
                    (''with_tactile_paving'', of_int tactile),
                    (''tactile_pct'', tactile_pct),
                    (''with_route_info'', of_int with_routes),
                    (''routes_pct'', routes_pct)] \<rparr>))))))"

subsection \<open>get_statistics\<close>



subsection \<open>Notions used to state the behaviour of the retry loop\<close>

text \<open>The exception that the \<open>try\<close> block raises for a given outcome of the request, if any.\<close>

definition raised :: "'f http_outcome \<Rightarrow> exn option" where
  "raised outcome =
     (case fst (try_body outcome init_pipeline) of Inl e \<Rightarrow> Some e | Inr stops \<Rightarrow> None)"

text \<open>Concrete inputs.\<close>

definition node_without_lat :: "'f osm_element" where
  "node_without_lat =
     \<lparr> el_type = Some ''node'', el_id = Some 1, el_lat = None, el_lon = None,
       el_tags = Some [(''highway'', ''bus_stop'')] \<rparr>"

definition answers_node_without_lat :: "nat \<Rightarrow> 'f http_outcome" where
  "answers_node_without_lat attempt = Responds (Object (Some [node_without_lat]))"

definition always_not_json :: "nat \<Rightarrow> 'f http_outcome" where
  "always_not_json attempt = Responds NotJson"

definition timeout_then_empty :: "nat \<Rightarrow> 'f http_outcome" where
  "timeout_then_empty attempt = (if attempt = 0 then Raises Timeout else Responds (Object (Some [])))"

section \<open>dashboard.py: route polyline\<close>

text \<open>
  The key of \<open>min\<close> in \<open>generate_route_polyline\<close>:
  \<open>((s.latitude - last.latitude)**2 + (s.longitude - last.longitude)**2)**0.5\<close>, the
  Euclidean distance in degrees from the stop \<open>last\<close> to the stop \<open>s\<close> as the floats
  compute it. A power can raise.
\<close>

definition distance :: "'f arith \<Rightarrow> 'f transport_stop \<Rightarrow> 'f transport_stop \<Rightarrow> exn + 'f" where
  "distance F last_stop s =
     (case f_square F (f_sub F (latitude s) (latitude last_stop)) of
        Inl e \<Rightarrow> Inl e
      | Inr a \<Rightarrow>
          (case f_square F (f_sub F (longitude s) (longitude last_stop)) of
             Inl e \<Rightarrow> Inl e
           | Inr b \<Rightarrow> f_root F (f_add F a b)))"

text \<open>
  \<open>min(iterable, key=f)\<close> computes the key of each item once, in order, keeps the first
  item as the best one and replaces it only by an item whose key is strictly smaller than the
  key of the best one, so among equal keys the first item wins. On an empty list it raises
  \<open>ValueError\<close>.
\<close>

fun min_from ::
  "('f \<Rightarrow> 'f \<Rightarrow> bool) \<Rightarrow> ('a \<Rightarrow> exn + 'f) \<Rightarrow> 'a \<Rightarrow> 'f \<Rightarrow> 'a list \<Rightarrow> exn + 'a" where
  "min_from lt key best best_key [] = Inr best"
| "min_from lt key best best_key (x # xs) =
     (case key x of
        Inl e \<Rightarrow> Inl e
      | Inr k \<Rightarrow> if lt k best_key then min_from lt key x k xs
                 else min_from lt key best best_key xs)"

fun py_min :: "('f \<Rightarrow> 'f \<Rightarrow> bool) \<Rightarrow> ('a \<Rightarrow> exn + 'f) \<Rightarrow> 'a list \<Rightarrow> exn + 'a" where
  "py_min lt key [] = Inl ValueError"
| "py_min lt key (x # xs) =
     (case key x of Inl e \<Rightarrow> Inl e | Inr k \<Rightarrow> min_from lt key x k xs)"

lemma min_from_in_set: "min_from lt key best best_key xs = Inr m \<Longrightarrow> m \<in> set (best # xs)"
proof (induction xs arbitrary: best best_key)
  case Nil
  then show ?case by simp
next
  case (Cons x xs)
  show ?case
  proof (cases "key x")
    case (Inl e)
    then show ?thesis using Cons.prems by simp
  next
    case (Inr k)
    then show ?thesis
      using Cons.prems Cons.IH [of x k] Cons.IH [of best best_key]
      by (auto split: if_splits)
  qed
qed

lemma py_min_in_set: "py_min lt key xs = Inr m \<Longrightarrow> m \<in> set xs"
proof (cases xs)
  case Nil
  assume "py_min lt key xs = Inr m"
  then show ?thesis using Nil by simp
next
  case (Cons x rest)
  assume "py_min lt key xs = Inr m"
  then show ?thesis
    using Cons min_from_in_set [of lt key x _ rest m]
    by (auto split: sum.splits)
qed

lemma length_remove1_less: "x \<in> set xs \<Longrightarrow> length (remove1 x xs) < length xs"
  by (induction xs) auto

text \<open>
  The \<open>while remaining\<close> loop. \<open>sorted_stops[-1]\<close> raises \<open>IndexError\<close> on an empty
  list; \<open>remaining.remove(nearest)\<close> removes the first item equal to \<open>nearest\<close>.
\<close>

function (sequential) nearest_loop ::
  "'f arith \<Rightarrow> 'f transport_stop list \<Rightarrow> 'f transport_stop list \<Rightarrow> exn + 'f transport_stop list"
where
  "nearest_loop F sorted_stops [] = Inr sorted_stops"
| "nearest_loop F [] (r # remaining) = Inl IndexError"
| "nearest_loop F (s # sorted_stops) (r # remaining) =
     (let last_stop = last (s # sorted_stops) in
      case py_min (f_lt F) (distance F last_stop) (r # remaining) of
        Inl e \<Rightarrow> Inl e
      | Inr nearest \<Rightarrow>
          nearest_loop F ((s # sorted_stops) @ [nearest]) (remove1 nearest (r # remaining)))"
  by pat_completeness auto

termination
proof (relation "measure (\<lambda>(F, sorted_stops, remaining). length remaining)")
  show "wf (measure (\<lambda>(F, sorted_stops, remaining). length remaining))"
    by simp
next
  fix F :: "'f arith" and s :: "'f transport_stop" and sorted_stops r remaining last_stop nearest
  assume "py_min (f_lt F) (distance F last_stop) (r # remaining) = Inr nearest"
  then have "nearest \<in> set (r # remaining)"
    by (rule py_min_in_set)
  then have "length (remove1 nearest (r # remaining)) < length (r # remaining)"
    by (rule length_remove1_less)
  then show "((F, (s # sorted_stops) @ [nearest], remove1 nearest (r # remaining)),
              (F, s # sorted_stops, r # remaining))
             \<in> measure (\<lambda>(F, sorted_stops, remaining). length remaining)"
    by simp
qed

declare nearest_loop.simps [simp del]

definition generate_route_polyline ::
  "'f arith \<Rightarrow> 'f transport_stop list \<Rightarrow> string
   \<Rightarrow> exn + (('f \<times> 'f) list \<times> 'f transport_stop list) option"
where
  "generate_route_polyline F stops route_name =
     (let route_stops = filter (\<lambda>s. route_name \<in> set (routes s)) stops in
      if length route_stops < 2 then Inr None
      else
        (case nearest_loop F [route_stops ! 0] (drop 1 route_stops) of
           Inl e \<Rightarrow> Inl e
         | Inr sorted_stops \<Rightarrow>
             Inr (Some (map (\<lambda>s. (latitude s, longitude s)) sorted_stops, sorted_stops))))"

section \<open>dashboard.py: vehicle simulation\<close>

text \<open>
  \<open>xs[i]\<close> with Python's negative indices, and \<open>random.randint(a, b)\<close>, which returns
  an integer between \<open>a\<close> and \<open>b\<close> inclusive, here computed from a raw draw of the
  generator.
\<close>

definition getitem :: "'a list \<Rightarrow> int \<Rightarrow> exn + 'a" where
  "getitem xs i =
     (if 0 \<le> i \<and> i < int (length xs) then Inr (xs ! nat i)
      else if i < 0 \<and> 0 \<le> i + int (length xs) then Inr (xs ! nat (i + int (length xs)))
      else Inl IndexError)"

definition randint :: "int \<Rightarrow> int \<Rightarrow> nat \<Rightarrow> int" where
  "randint a b draw = a + int (draw mod nat (b - a + 1))"

record 'f snapshot =
  position :: "'f \<times> 'f"
  last_stop :: string
  current_stop :: string
  next_stop :: string
  status :: string
  eta :: int

text \<open>
  \<open>simulate_vehicle_position\<close>; \<open>now\<close> is the value of \<open>time.time()\<close> and \<open>draw\<close>
  the raw draw behind \<open>random.randint\<close>. The sub-expressions of \<open>progress\<close> are
  evaluated from left to right. The fields of the result carry the names of the keys of the
  returned dict, so the local variables of the same names are primed.
\<close>

definition simulate_vehicle_position ::
  "'f arith \<Rightarrow> ('f \<times> 'f) list \<Rightarrow> 'f transport_stop list \<Rightarrow> int \<Rightarrow> int \<Rightarrow> 'f \<Rightarrow> nat
   \<Rightarrow> exn + 'f snapshot option" where
  "simulate_vehicle_position F route_points route_stops vehicle_id total_vehicles now draw =
     (if route_points = [] \<or> length route_points < 2 then Inr None
      else
        (case int_truediv F vehicle_id total_vehicles of
           Inl e \<Rightarrow> Inl e
         | Inr share \<Rightarrow>
        (case f_mod F now (of_pyint F 60) of
           Inl e \<Rightarrow> Inl e
         | Inr seconds \<Rightarrow>
        (case f_truediv F seconds (of_pyint F 600) of
           Inl e \<Rightarrow> Inl e
         | Inr advance \<Rightarrow>
        (case f_mod F (f_add F share advance) (of_literal F 1) of
           Inl e \<Rightarrow> Inl e
         | Inr progress \<Rightarrow>
        let total_segments = int (length route_points) - 1 in
        (case f_int F (f_mul F progress (of_pyint F total_segments)) of
           Inl e \<Rightarrow> Inl e
         | Inr current_segment \<Rightarrow>
        let current_segment =
              (if current_segment \<ge> total_segments then total_segments - 1 else current_segment);
            last_stop_idx = current_segment;
            next_stop_idx = min (current_segment + 1) (int (length route_stops) - 1)
        in
        (case (if last_stop_idx < int (length route_stops)
               then map_sum id name (getitem route_stops last_stop_idx)
               else Inr ''Unknown'') of
           Inl e \<Rightarrow> Inl e
         | Inr last_stop' \<Rightarrow>
        (case (if next_stop_idx < int (length route_stops)
               then map_sum id name (getitem route_stops next_stop_idx)
               else Inr ''Terminal'') of
           Inl e \<Rightarrow> Inl e
         | Inr next_stop' \<Rightarrow>
        let local_progress =
              f_sub F (f_mul F progress (of_pyint F total_segments)) (of_pyint F current_segment)
        in
        (case getitem route_points current_segment of
           Inl e \<Rightarrow> Inl e
         | Inr p1 \<Rightarrow>
        (case getitem route_points (min (current_segment + 1) (int (length route_points) - 1)) of
           Inl e \<Rightarrow> Inl e
         | Inr p2 \<Rightarrow>
        let lat = f_add F (fst p1) (f_mul F (f_sub F (fst p2) (fst p1)) local_progress);
            lon = f_add F (snd p1) (f_mul F (f_sub F (snd p2) (snd p1)) local_progress);
            (current_stop', status', eta') =
              (if f_lt F local_progress (of_literal F 0.1) then (last_stop', ''At Stop'', 0)
               else if f_lt F (of_literal F 0.9) local_progress then (next_stop', ''Arriving'', 1)
               else (last_stop', ''In Transit'', randint 2 8 draw))
        in Inr (Some \<lparr> position = (lat, lon),
                        last_stop = last_stop',
                        current_stop = current_stop',
                        next_stop = next_stop',
                        status = status',
                        eta = eta' \<rparr>)))))))))))"

section \<open>dashboard_v5_backup.py: the same two functions\<close>

function (sequential) nearest_loop_v5 ::
  "'f arith \<Rightarrow> 'f transport_stop list \<Rightarrow> 'f transport_stop list \<Rightarrow> exn + 'f transport_stop list"
where
  "nearest_loop_v5 F sorted_stops [] = Inr sorted_stops"
| "nearest_loop_v5 F [] (r # remaining) = Inl IndexError"
| "nearest_loop_v5 F (s # sorted_stops) (r # remaining) =
     (let last_stop = last (s # sorted_stops) in
      case py_min (f_lt F) (distance F last_stop) (r # remaining) of
        Inl e \<Rightarrow> Inl e
      | Inr nearest \<Rightarrow>
          nearest_loop_v5 F ((s # sorted_stops) @ [nearest]) (remove1 nearest (r # remaining)))"
  by pat_completeness auto

termination
proof (relation "measure (\<lambda>(F, sorted_stops, remaining). length remaining)")
  show "wf (measure (\<lambda>(F, sorted_stops, remaining). length remaining))"
    by simp
next
  fix F :: "'f arith" and s :: "'f transport_stop" and sorted_stops r remaining last_stop nearest
  assume "py_min (f_lt F) (distance F last_stop) (r # remaining) = Inr nearest"
  then have "nearest \<in> set (r # remaining)"
    by (rule py_min_in_set)
  then have "length (remove1 nearest (r # remaining)) < length (r # remaining)"
    by (rule length_remove1_less)
  then show "((F, (s # sorted_stops) @ [nearest], remove1 nearest (r # remaining)),
              (F, s # sorted_stops, r # remaining))
             \<in> measure (\<lambda>(F, sorted_stops, remaining). length remaining)"
    by simp
qed

declare nearest_loop_v5.simps [simp del]

definition generate_route_polyline_v5 ::
  "'f arith \<Rightarrow> 'f transport_stop list \<Rightarrow> string
   \<Rightarrow> exn + (('f \<times> 'f) list \<times> 'f transport_stop list) option"
where
  "generate_route_polyline_v5 F stops route_name =
     (let route_stops = filter (\<lambda>s. route_name \<in> set (routes s)) stops in
      if length route_stops < 2 then Inr None
      else
        (case nearest_loop_v5 F [route_stops ! 0] (drop 1 route_stops) of
           Inl e \<Rightarrow> Inl e
         | Inr sorted_stops \<Rightarrow>
             Inr (Some (map (\<lambda>s. (latitude s, longitude s)) sorted_stops, sorted_stops))))"

text \<open>
  In this file the product \<open>progress * total_segments\<close> is kept in
  \<open>current_segment_float\<close> and used twice.
\<close>

definition simulate_vehicle_position_v5 ::
  "'f arith \<Rightarrow> ('f \<times> 'f) list \<Rightarrow> 'f transport_stop list \<Rightarrow> int \<Rightarrow> int \<Rightarrow> 'f \<Rightarrow> nat
   \<Rightarrow> exn + 'f snapshot option" where
  "simulate_vehicle_position_v5 F route_points route_stops vehicle_id total_vehicles now draw =
     (if route_points = [] \<or> length route_points < 2 then Inr None
      else
        (case int_truediv F vehicle_id total_vehicles of
           Inl e \<Rightarrow> Inl e
         | Inr share \<Rightarrow>
        (case f_mod F now (of_pyint F 60) of
           Inl e \<Rightarrow> Inl e
         | Inr seconds \<Rightarrow>
        (case f_truediv F seconds (of_pyint F 600) of
           Inl e \<Rightarrow> Inl e
         | Inr advance \<Rightarrow>
        (case f_mod F (f_add F share advance) (of_literal F 1) of
           Inl e \<Rightarrow> Inl e
         | Inr progress \<Rightarrow>
        let total_segments = int (length route_points) - 1;
            current_segment_float = f_mul F progress (of_pyint F total_segments)
        in
        (case f_int F current_segment_float of
           Inl e \<Rightarrow> Inl e
         | Inr current_segment \<Rightarrow>
        let current_segment =
              (if current_segment \<ge> total_segments then total_segments - 1 else current_segment);
            last_stop_idx = current_segment;
            next_stop_idx = min (current_segment + 1) (int (length route_stops) - 1)
        in
        (case (if last_stop_idx < int (length route_stops)
               then map_sum id name (getitem route_stops last_stop_idx)
               else Inr ''Unknown'') of
           Inl e \<Rightarrow> Inl e
         | Inr last_stop' \<Rightarrow>
        (case (if next_stop_idx < int (length route_stops)
               then map_sum id name (getitem route_stops next_stop_idx)
               else Inr ''Terminal'') of
           Inl e \<Rightarrow> Inl e
         | Inr next_stop' \<Rightarrow>
        let local_progress = f_sub F current_segment_float (of_pyint F current_segment) in
        (case getitem route_points current_segment of
           Inl e \<Rightarrow> Inl e
         | Inr p1 \<Rightarrow>
        (case getitem route_points (min (current_segment + 1) (int (length route_points) - 1)) of
           Inl e \<Rightarrow> Inl e
         | Inr p2 \<Rightarrow>
        let lat = f_add F (fst p1) (f_mul F (f_sub F (fst p2) (fst p1)) local_progress);
            lon = f_add F (snd p1) (f_mul F (f_sub F (snd p2) (snd p1)) local_progress);
            (current_stop', status', eta') =
              (if f_lt F local_progress (of_literal F 0.1) then (last_stop', ''At Stop'', 0)
               else if f_lt F (of_literal F 0.9) local_progress then (next_stop', ''Arriving'', 1)
               else (last_stop', ''In Transit'', randint 2 8 draw))
        in Inr (Some \<lparr> position = (lat, lon),
                        last_stop = last_stop',
                        current_stop = current_stop',
                        next_stop = next_stop',
                        status = status',
                        eta = eta' \<rparr>)))))))))))"

section \<open>IEEE binary64 arithmetic as Python performs it\<close>

text \<open>
  \<open>exponent x\<close> is the exponent \<open>e\<close> of the binade of \<open>x\<close>,
  \<open>2^e \<le> |x| < 2^(e+1)\<close>, found by repeated halving or doubling and not below
  \<open>-1022\<close>, where the subnormal numbers begin.
\<close>

fun halvings :: "nat \<Rightarrow> real \<Rightarrow> int" where
  "halvings 0 x = 0"
| "halvings (Suc k) x = (if x < 2 then 0 else 1 + halvings k (x / 2))"

fun doublings :: "nat \<Rightarrow> real \<Rightarrow> int" where
  "doublings 0 x = 0"
| "doublings (Suc k) x = (if 1 \<le> x then 0 else doublings k (2 * x) - 1)"

definition exponent :: "real \<Rightarrow> int" where
  "exponent x = (if 1 \<le> \<bar>x\<bar> then halvings 1024 \<bar>x\<bar> else doublings 1022 \<bar>x\<bar>)"

definition pow2 :: "int \<Rightarrow> real" where
  "pow2 e = (if 0 \<le> e then 2 ^ nat e else 1 / 2 ^ nat (- e))"

text \<open>
  \<open>rnd x\<close> is the float nearest to the real number \<open>x\<close>, ties to the even significand:
  the significand has 53 bits, so the spacing of the floats around \<open>x\<close> is
  \<open>2^(e - 52)\<close>; a result of \<open>2^1024\<close> or more is an infinity.
\<close>

definition rnd :: "real \<Rightarrow> double" where
  "rnd x =
     (if x = 0 then Fin 0
      else
        let ulp = pow2 (exponent x - 52);
            y = of_int (round_half_even (\<bar>x\<bar> / ulp)) * ulp
        in if pow2 1024 \<le> y then (if 0 < x then PInf else NInf)
           else Fin (if 0 < x then y else - y))"

definition d_neg :: "double \<Rightarrow> double" where
  "d_neg a = (case a of Fin x \<Rightarrow> Fin (- x) | PInf \<Rightarrow> NInf | NInf \<Rightarrow> PInf | NaN \<Rightarrow> NaN)"

fun d_add :: "double \<Rightarrow> double \<Rightarrow> double" where
  "d_add (Fin x) (Fin y) = rnd (x + y)"
| "d_add NaN b = NaN"
| "d_add a NaN = NaN"
| "d_add PInf NInf = NaN"
| "d_add NInf PInf = NaN"
| "d_add PInf b = PInf"
| "d_add NInf b = NInf"
| "d_add a PInf = PInf"
| "d_add a NInf = NInf"

definition d_sub :: "double \<Rightarrow> double \<Rightarrow> double" where
  "d_sub a b = d_add a (d_neg b)"

text \<open>The sign of a product or quotient with an infinity.\<close>

definition d_inf :: "bool \<Rightarrow> double" where
  "d_inf negative = (if negative then NInf else PInf)"

fun d_mul :: "double \<Rightarrow> double \<Rightarrow> double" where
  "d_mul (Fin x) (Fin y) = rnd (x * y)"
| "d_mul NaN b = NaN"
| "d_mul a NaN = NaN"
| "d_mul (Fin x) PInf = (if x = 0 then NaN else d_inf (x < 0))"
| "d_mul (Fin x) NInf = (if x = 0 then NaN else d_inf (0 < x))"
| "d_mul PInf (Fin y) = (if y = 0 then NaN else d_inf (y < 0))"
| "d_mul NInf (Fin y) = (if y = 0 then NaN else d_inf (0 < y))"
| "d_mul PInf PInf = PInf"
| "d_mul NInf NInf = PInf"
| "d_mul PInf NInf = NInf"
| "d_mul NInf PInf = NInf"

text \<open>\<open>a / b\<close> on floats: a zero divisor raises before anything else is looked at.\<close>

fun d_quotient :: "double \<Rightarrow> double \<Rightarrow> double" where
  "d_quotient (Fin x) (Fin y) = rnd (x / y)"
| "d_quotient NaN b = NaN"
| "d_quotient a NaN = NaN"
| "d_quotient (Fin x) b = Fin 0"
| "d_quotient PInf (Fin y) = d_inf (y < 0)"
| "d_quotient NInf (Fin y) = d_inf (0 < y)"
| "d_quotient a b = NaN"

definition d_truediv :: "double \<Rightarrow> double \<Rightarrow> exn + double" where
  "d_truediv a b = (if b = Fin 0 then Inl ZeroDivisionError else Inr (d_quotient a b))"

text \<open>
  \<open>a % b\<close> on floats: the exact remainder with the sign of the divisor, rounded once. With
  an infinite divisor the dividend is returned when it is zero or has the sign of the
  divisor, else the divisor.
\<close>

fun d_remainder :: "double \<Rightarrow> double \<Rightarrow> double" where
  "d_remainder (Fin x) (Fin y) = rnd (x - y * of_int \<lfloor>x / y\<rfloor>)"
| "d_remainder (Fin x) PInf = (if 0 \<le> x then Fin x else PInf)"
| "d_remainder (Fin x) NInf = (if x \<le> 0 then Fin x else NInf)"
| "d_remainder a b = NaN"

definition d_mod :: "double \<Rightarrow> double \<Rightarrow> exn + double" where
  "d_mod a b = (if b = Fin 0 then Inl ZeroDivisionError else Inr (d_remainder a b))"

text \<open>\<open>x ** 2\<close>: a finite operand whose square is out of range raises \<open>OverflowError\<close>.\<close>

definition d_square :: "double \<Rightarrow> exn + double" where
  "d_square a =
     (case a of
        Fin x \<Rightarrow> (case rnd (x * x) of Fin y \<Rightarrow> Inr (Fin y) | other \<Rightarrow> Inl OverflowError)
      | PInf \<Rightarrow> Inr PInf
      | NInf \<Rightarrow> Inr PInf
      | NaN \<Rightarrow> Inr NaN)"

text \<open>
  \<open>x ** 0.5\<close>. For a negative finite \<open>x\<close> Python returns a complex number, which
  \<open>min\<close> cannot order; a sum of two squares is never negative, so the dashboard does not
  reach that case, and the model raises the \<open>TypeError\<close> of the comparison there.
\<close>

definition d_root :: "double \<Rightarrow> exn + double" where
  "d_root a =
     (case a of
        Fin x \<Rightarrow> (if x < 0 then Inl TypeError else Inr (rnd (sqrt x)))
      | PInf \<Rightarrow> Inr PInf
      | NInf \<Rightarrow> Inr PInf
      | NaN \<Rightarrow> Inr NaN)"

fun d_lt :: "double \<Rightarrow> double \<Rightarrow> bool" where
  "d_lt (Fin x) (Fin y) = (x < y)"
| "d_lt NaN b = False"
| "d_lt a NaN = False"
| "d_lt a NInf = False"
| "d_lt PInf b = False"
| "d_lt a b = True"

text \<open>\<open>int(x)\<close> truncates towards zero; an infinity and NaN raise.\<close>

definition trunc :: "real \<Rightarrow> int" where
  "trunc x = (if x < 0 then \<lceil>x\<rceil> else \<lfloor>x\<rfloor>)"

definition d_int :: "double \<Rightarrow> exn + int" where
  "d_int a =
     (case a of
        Fin x \<Rightarrow> Inr (trunc x)
      | PInf \<Rightarrow> Inl OverflowError
      | NInf \<Rightarrow> Inl OverflowError
      | NaN \<Rightarrow> Inl ValueError)"

text \<open>\<open>a / b\<close> on two ints: the quotient rounded once, out of range an \<open>OverflowError\<close>.\<close>

definition d_int_truediv :: "int \<Rightarrow> int \<Rightarrow> exn + double" where
  "d_int_truediv a b =
     (if b = 0 then Inl ZeroDivisionError
      else (case rnd (of_int a / of_int b) of
              Fin q \<Rightarrow> Inr (Fin q)
            | other \<Rightarrow> Inl OverflowError))"

text \<open>A finite float: a real number that rounding leaves as it is.\<close>

definition d_finite :: "double \<Rightarrow> bool" where
  "d_finite a = (case a of Fin x \<Rightarrow> rnd x = Fin x | other \<Rightarrow> False)"

text \<open>
  The int operands of mixed arithmetic in the dashboard are list lengths, indices and small
  literals, far below the range where the conversion of an int to a float raises.
\<close>

definition double_arith :: "double arith" where
  "double_arith =
     \<lparr> of_pyint = (\<lambda>i. rnd (of_int i)),
       of_literal = rnd,
       int_truediv = d_int_truediv,
       f_add = d_add,
       f_sub = d_sub,
       f_mul = d_mul,
       f_truediv = d_truediv,
       f_mod = d_mod,
       f_square = d_square,
       f_root = d_root,
       f_lt = d_lt,
       f_int = d_int,
       f_finite = d_finite \<rparr>"

section \<open>Notions used to state the properties of the dashboard functions\<close>

text \<open>
  The values of the local variables \<open>progress\<close>, \<open>current_segment\<close> (after the clamp)
  and \<open>local_progress\<close> of \<open>simulate_vehicle_position\<close>, as functions of its inputs.
  \<open>int()\<close> of the product is its floor whenever the product is not negative.
\<close>

definition progress :: "'f arith \<Rightarrow> int \<Rightarrow> int \<Rightarrow> 'f \<Rightarrow> exn + 'f" where
  "progress F vehicle_id total_vehicles now =
     (case int_truediv F vehicle_id total_vehicles of
        Inl e \<Rightarrow> Inl e
      | Inr share \<Rightarrow>
     (case f_mod F now (of_pyint F 60) of
        Inl e \<Rightarrow> Inl e
      | Inr seconds \<Rightarrow>
     (case f_truediv F seconds (of_pyint F 600) of
        Inl e \<Rightarrow> Inl e
      | Inr advance \<Rightarrow> f_mod F (f_add F share advance) (of_literal F 1))))"

definition current_segment :: "'f arith \<Rightarrow> 'f \<Rightarrow> int \<Rightarrow> exn + int" where
  "current_segment F prog total_segments =
     (case f_int F (f_mul F prog (of_pyint F total_segments)) of
        Inl e \<Rightarrow> Inl e
      | Inr cs \<Rightarrow> Inr (if cs \<ge> total_segments then total_segments - 1 else cs))"

definition local_progress :: "'f arith \<Rightarrow> 'f \<Rightarrow> int \<Rightarrow> int \<Rightarrow> 'f" where
  "local_progress F prog total_segments seg =
     f_sub F (f_mul F prog (of_pyint F total_segments)) (of_pyint F seg)"

text \<open>Linear interpolation between two points, as the floats compute it.\<close>

definition interpolate :: "'f arith \<Rightarrow> 'f \<times> 'f \<Rightarrow> 'f \<times> 'f \<Rightarrow> 'f \<Rightarrow> 'f \<times> 'f" where
  "interpolate F p1 p2 t =
     (f_add F (fst p1) (f_mul F (f_sub F (fst p2) (fst p1)) t),
      f_add F (snd p1) (f_mul F (f_sub F (snd p2) (snd p1)) t))"





subsection \<open>The laws of float arithmetic that the proofs use\<close>

text \<open>
  Each law holds of IEEE arithmetic, infinities and NaN included, and is proved of
  \<open>double_arith\<close> below.
  \<^item> \<open>lt_strict_order\<close>: \<open><\<close> is irreflexive and transitive.
  \<^item> \<open>sign_laws\<close>: \<open>x % 1.0\<close> is never below zero; the product of a float that is not
    below zero with an int that is not negative is not below zero; \<open>int(x)\<close> of such a
    float is not negative.
  \<^item> \<open>band_law\<close>: no float is below 0.1 and above 0.9.
  \<^item> \<open>zero_law\<close>: for finite floats \<open>p\<close> and \<open>d\<close>, \<open>p + d * 0\<close> is \<open>p\<close>.
\<close>

definition lt_strict_order :: "'f arith \<Rightarrow> bool" where
  "lt_strict_order F =
     ((\<forall>x. \<not> f_lt F x x) \<and> (\<forall>x y z. f_lt F x y \<and> f_lt F y z \<longrightarrow> f_lt F x z))"

definition sign_laws :: "'f arith \<Rightarrow> bool" where
  "sign_laws F =
     ((\<forall>x r. f_mod F x (of_literal F 1) = Inr r \<longrightarrow> \<not> f_lt F r (of_pyint F 0))
      \<and> (\<forall>a n. \<not> f_lt F a (of_pyint F 0) \<and> 0 \<le> n
             \<longrightarrow> \<not> f_lt F (f_mul F a (of_pyint F n)) (of_pyint F 0))
      \<and> (\<forall>x k. f_int F x = Inr k \<and> \<not> f_lt F x (of_pyint F 0) \<longrightarrow> 0 \<le> k))"

definition band_law :: "'f arith \<Rightarrow> bool" where
  "band_law F = (\<forall>x. f_lt F x (of_literal F 0.1) \<longrightarrow> \<not> f_lt F (of_literal F 0.9) x)"


subsection \<open>Concrete inputs\<close>

definition example_stop :: "string \<Rightarrow> real \<Rightarrow> real \<Rightarrow> string list \<Rightarrow> double transport_stop" where
  "example_stop n lat lon rs =
     \<lparr> osm_id = n, name = n, latitude = rnd lat, longitude = rnd lon, transport_type = BUS,
       operator = None, network = None, routes = rs, ref = None,
       wheelchair_accessible = False, has_shelter = False, has_bench = False,
       has_tactile_paving = False, metadata = [] \<rparr>"


definition path3 :: "(double \<times> double) list" where
  "path3 = [(Fin 0, Fin 0), (Fin 0, Fin 2), (Fin 0, Fin 5)]"

definition stops3 :: "double transport_stop list" where
  "stops3 =
     [example_stop ''A'' 0 0 [''10''], example_stop ''D'' 0 2 [''10''],
      example_stop ''B'' 0 5 [''10'', ''20'']]"

definition path6 :: "(double \<times> double) list" where
  "path6 = [(Fin 0, Fin 0), (Fin 1, Fin 0), (Fin 2, Fin 0), (Fin 3, Fin 0), (Fin 4, Fin 0),
            (Fin 5, Fin 0)]"

definition stops6 :: "double transport_stop list" where
  "stops6 =
     [example_stop ''S0'' 0 0 [''10''], example_stop ''S1'' 1 0 [''10''],
      example_stop ''S2'' 2 0 [''10''], example_stop ''S3'' 3 0 [''10''],
      example_stop ''S4'' 4 0 [''10''], example_stop ''S5'' 5 0 [''10'']]"

text \<open>Two stops at nearly the same distance from a third one.\<close>

definition tie_stops :: "double transport_stop list" where
  "tie_stops =
     [example_stop ''A'' 0 0 [''10''],
      example_stop ''X'' 1 (1 / 2 ^ 30) [''10''],
      example_stop ''Y'' 1 0 [''10'']]"



section \<open>Tag classification\<close>

text \<open>
  C4. Whenever the attribute bag maps \<open>highway\<close> to \<open>bus_stop\<close>, classification
  returns BUS, whatever else the bag holds: the first rule is tested before any other key
  is read.
\<close>

theorem C4_highway_bus_stop_is_BUS:
  "map_of tags ''highway'' = Some ''bus_stop'' \<Longrightarrow> from_osm_tags tags = Some BUS"
  by (simp add: from_osm_tags_def)

theorem C4_highway_bus_stop_is_BUS_witness:
  "map_of [(''railway'', ''station''), (''highway'', ''bus_stop''), (''amenity'', ''ferry_terminal'')]
     ''highway'' = Some ''bus_stop''
   \<and> from_osm_tags [(''railway'', ''station''), (''highway'', ''bus_stop''),
        (''amenity'', ''ferry_terminal'')] = Some BUS"
  using C4_highway_bus_stop_is_BUS
    [of "[(''railway'', ''station''), (''highway'', ''bus_stop''), (''amenity'', ''ferry_terminal'')]"]
  by simp

section \<open>Route-identifier extraction\<close>

lemma fromkeys_acc:
  "foldl (\<lambda>d x. if x \<in> set d then d else d @ [x]) d xs
   = d @ first_seen (filter (\<lambda>x. x \<notin> set d) xs)"
proof (induction xs arbitrary: d)
  case Nil
  show ?case by simp
next
  case (Cons x xs)
  show ?case
  proof (cases "x \<in> set d")
    case True
    then show ?thesis using Cons.IH [of d] by simp
  next
    case False
    have "removeAll x (filter (\<lambda>y. y \<notin> set d) xs) = filter (\<lambda>y. y \<notin> set (d @ [x])) xs"
      by (induction xs) auto
    then show ?thesis using False Cons.IH [of "d @ [x]"] by simp
  qed
qed

lemma fromkeys_first_seen: "fromkeys xs = first_seen xs"
  using fromkeys_acc [of "[]" xs] by (simp add: fromkeys_def)

lemma first_seen_set: "set (first_seen xs) = set xs"
  by (induction xs rule: first_seen.induct) auto

lemma first_seen_distinct: "distinct (first_seen xs)"
  by (induction xs rule: first_seen.induct) (auto simp: first_seen_set)

lemma route_loop:
  "foldl (\<lambda>rs (key, val). if contains ''route'' (lower key) \<and> val \<noteq> [] then rs @ [val] else rs)
     acc tags
   = acc @ route_values tags"
proof (induction tags arbitrary: acc)
  case Nil
  show ?case by (simp add: route_values_def)
next
  case (Cons kv tags)
  obtain key val where kv: "kv = (key, val)" by (cases kv)
  show ?case using Cons.IH by (simp add: kv route_values_def)
qed

lemma strip_then_keep: "map strip (filter (\<lambda>r. strip r \<noteq> []) xs) = trimmed xs"
  by (induction xs) (auto simp: trimmed_def)

lemma trimmed_Nil: "trimmed [] = []"
  by (simp add: trimmed_def)

lemma trimmed_append: "trimmed (xs @ ys) = trimmed xs @ trimmed ys"
  by (simp add: trimmed_def)

lemma extract_routes_trimmed: "extract_routes tags = trimmed_routes tags"
proof (cases "map_of tags ''lines''")
  case None
  then show ?thesis
    by (simp add: extract_routes_def trimmed_routes_def lines_segments_def route_loop
        strip_then_keep trimmed_append trimmed_Nil fromkeys_first_seen)
next
  case (Some v)
  then show ?thesis
    by (simp add: extract_routes_def trimmed_routes_def lines_segments_def route_loop
        strip_then_keep trimmed_append trimmed_Nil fromkeys_first_seen)
qed

text \<open>
  No key that contains \<open>route\<close> is the key \<open>lines\<close>, so "every other key" excludes
  nothing.
\<close>

lemma other_route_values_eq: "other_route_values tags = route_values tags"
proof -
  have "\<not> contains ''route'' (lower ''lines'')"
    by (simp add: lower_def lower_char_def)
  then have "\<And>key. contains ''route'' (lower key) \<Longrightarrow> key \<noteq> ''lines''"
    by blast
  then show ?thesis
    unfolding other_route_values_def route_values_def
    by (intro arg_cong [where f = "map snd"] filter_cong) auto
qed

text \<open>
  C5, as stated, fails: the value of a \<open>route\<close> key is trimmed too. For the bag
  \<open>{'route_ref': ' 12 '}\<close> the code returns \<open>['12']\<close>, the stated rule \<open>[' 12 ']\<close>.
\<close>

theorem C5_route_value_trimmed_counterexample:
  "extract_routes [(''route_ref'', '' 12 '')] = [''12'']
   \<and> claimed_routes [(''route_ref'', '' 12 '')] = ['' 12 '']
   \<and> extract_routes [(''route_ref'', '' 12 '')] \<noteq> claimed_routes [(''route_ref'', '' 12 '')]"
  by (simp add: extract_routes_def fromkeys_def claimed_routes_def lines_segments_def
      other_route_values_def trimmed_def strip_def isspace_def lower_def lower_char_def)

text \<open>
  C5, amended. For every attribute bag, extraction returns the trimmed segments of the
  \<open>lines\<close> value split on \<open>;\<close>, followed by the trimmed values of every key that
  contains \<open>route\<close> (case-insensitive), in both cases without the entries that are empty
  after trimming, deduplicated case-sensitively in first-seen order and cut to the first five
  entries; the result has no duplicates and at most five entries, and for the bag whose only
  key is \<open>lines = "107M;177H;178"\<close> it is \<open>["107M", "177H", "178"]\<close>.
\<close>

theorem C5_extract_routes_trimmed_first_seen:
  "extract_routes tags
     = take 5 (first_seen (trimmed (lines_segments tags) @ trimmed (route_values tags)))
   \<and> distinct (extract_routes tags)
   \<and> length (extract_routes tags) \<le> 5
   \<and> extract_routes [(''lines'', ''107M;177H;178'')] = [''107M'', ''177H'', ''178'']"
proof -
  have "extract_routes [(''lines'', ''107M;177H;178'')] = [''107M'', ''177H'', ''178'']"
    by (simp add: extract_routes_def fromkeys_def strip_def isspace_def lower_def lower_char_def)
  moreover have "distinct (extract_routes tags)"
    by (simp add: extract_routes_def fromkeys_first_seen first_seen_distinct)
  moreover have "length (extract_routes tags) \<le> 5"
    by (simp add: extract_routes_def)
  ultimately show ?thesis
    using extract_routes_trimmed [of tags] by (simp add: trimmed_routes_def)
qed

section \<open>Stop normalisation\<close>

lemma range_max_retries: "[0..<max_retries] = [0, 1, 2]"
  by (simp add: max_retries_def eval_nat_numeral upt_Suc)

text \<open>An element that is not a node, or whose tags are not classified, is rejected.\<close>

lemma from_osm_element_rejects:
  "el_type element \<noteq> Some ''node''
     \<or> from_osm_tags (case el_tags element of None \<Rightarrow> [] | Some t \<Rightarrow> t) = None
   \<Longrightarrow> from_osm_element element = Inr None"
  by (auto simp: from_osm_element_def)

text \<open>
  C1 does not hold of the code for an element without latitude: a node tagged
  \<open>highway=bus_stop\<close> with no \<open>lat\<close> key makes \<open>from_osm_element\<close> raise
  \<open>KeyError\<close>; \<open>fetch_transport_stops\<close> catches only the exceptions of
  \<open>requests\<close>, so the error reaches the caller after one request, and the element is not
  counted as failed.
\<close>

theorem C1_missing_lat_raises_KeyError:
  "from_osm_element node_without_lat = Inl (KeyError ''lat'')
   \<and> fetch_transport_stops answers_node_without_lat init_pipeline
     = (Inl (KeyError ''lat''), init_pipeline\<lparr>api_calls := 1, effects := [Post]\<rparr>)"
  unfolding fetch_transport_stops_def range_max_retries
  by (simp add: from_osm_element_def from_osm_tags_def node_without_lat_def
      answers_node_without_lat_def try_body_def init_pipeline_def isinstance_Timeout_def
      isinstance_RequestException_def)

section \<open>The retry loop of the ingestion client\<close>

lemma parse_elements_fst:
  "fst (parse_elements es stops p) = fst (parse_elements es stops q)"
proof (induction es arbitrary: stops p q)
  case Nil
  show ?case by simp
next
  case (Cons e es)
  show ?case
  proof (cases "from_osm_element e")
    case (Inl x)
    then show ?thesis by simp
  next
    case (Inr so)
    then show ?thesis using Cons.IH by (cases so) auto
  qed
qed

lemma parse_elements_effects: "effects (snd (parse_elements es stops p)) = effects p"
proof (induction es arbitrary: stops p)
  case Nil
  show ?case by simp
next
  case (Cons e es)
  show ?case
  proof (cases "from_osm_element e")
    case (Inl x)
    then show ?thesis by simp
  next
    case (Inr so)
    then show ?thesis using Cons.IH by (cases so) auto
  qed
qed

lemma try_body_effects: "effects (snd (try_body outcome p)) = effects p @ [Post]"
  by (simp add: try_body_def Let_def parse_elements_effects
      split: http_outcome.splits body.splits)

lemma try_body_raised:
  fixes outcome :: "'f http_outcome"
  shows "raised outcome
         = (case fst (try_body outcome p) of Inl e \<Rightarrow> Some e | Inr stops \<Rightarrow> None)"
  unfolding raised_def try_body_def Let_def
  using parse_elements_fst
    [of _ "[] :: 'f transport_stop list"
       "init_pipeline\<lparr>effects := effects init_pipeline @ [Post]\<rparr>"
       "p\<lparr>effects := effects p @ [Post]\<rparr>"]
  by (simp split: http_outcome.splits body.splits)

lemma try_body_Inl:
  "try_body outcome p = (Inl e, p') \<Longrightarrow> raised outcome = Some e \<and> effects p' = effects p @ [Post]"
  using try_body_raised [of outcome p] try_body_effects [of outcome p] by simp

lemma try_body_Inr:
  "try_body outcome p = (Inr stops, p') \<Longrightarrow> raised outcome = None \<and> effects p' = effects p @ [Post]"
  using try_body_raised [of outcome p] try_body_effects [of outcome p] by simp

lemma attempts_last: "attempts net [2] p = try_body (net 2) p"
  by (auto simp: max_retries_def split: prod.splits sum.splits)

text \<open>
  C2, as stated, fails for a body that is not JSON: \<open>Response.json()\<close> reports it with an
  exception of the \<open>RequestException\<close> family, which the second \<open>except\<close> clause
  catches, so the request is sent three times with two delays in between.
\<close>

theorem C2_not_json_retried_counterexample:
  "fetch_transport_stops always_not_json init_pipeline
   = (Inl JSONDecodeError,
      init_pipeline\<lparr>api_calls := 1, effects := [Post, Sleep 5, Post, Sleep 5, Post]\<rparr>)"
  unfolding fetch_transport_stops_def range_max_retries
  by (simp add: always_not_json_def max_retries_def retry_delay_def sleep_def try_body_def
      init_pipeline_def isinstance_Timeout_def isinstance_RequestException_def)

text \<open>
  C2, amended. \<open>fetch_transport_stops\<close> sends at most three requests. With \<open>k\<close> the
  number of retries, \<open>k < 3\<close>: each of the first \<open>k\<close> attempts raised an exception of
  the \<open>RequestException\<close> family (a timeout, another transport error, or the decoding
  error of a body that is not JSON) and was followed by a delay of 5 and the next request;
  attempt \<open>k\<close> ends the call with no delay after it, either with the list of stops or with the
  very exception it raised (so a timeout stays distinct from the other errors), and an
  exception of the \<open>RequestException\<close> family ends the call only on the third attempt.
  Any other exception, such as the one raised for a decoded body of the wrong shape, is
  therefore never retried.
\<close>

theorem C2_retry_loop:
  assumes run: "fetch_transport_stops net p = (r, p')"
  shows "\<exists>k<3. effects p' = effects p @ concat (replicate k [Post, Sleep 5]) @ [Post]
           \<and> (\<forall>i<k. \<exists>e. raised (net i) = Some e \<and> isinstance_RequestException e)
           \<and> (case r of
                Inr stops \<Rightarrow> raised (net k) = None
              | Inl e \<Rightarrow> raised (net k) = Some e \<and> (isinstance_RequestException e \<longrightarrow> k = 2))"
proof -
  define p0 where "p0 = p\<lparr>api_calls := api_calls p + 1\<rparr>"
  have e0: "effects p0 = effects p" by (simp add: p0_def)
  have run': "attempts net [0, 1, 2] p0 = (r, p')"
    using run by (simp add: fetch_transport_stops_def range_max_retries p0_def)
  obtain r0 q0 where t0: "try_body (net 0) p0 = (r0, q0)" by (cases "try_body (net 0) p0")
  show ?thesis
  proof (cases r0)
    case (Inr stops)
    then have "r = Inr stops" "p' = q0" using run' t0 by auto
    then show ?thesis using try_body_Inr [OF t0 [unfolded Inr]] e0
      by (intro exI [of _ 0]) simp
  next
    case (Inl x0)
    note f0 = try_body_Inl [OF t0 [unfolded Inl]]
    show ?thesis
    proof (cases "isinstance_RequestException x0")
      case False
      then have "\<not> isinstance_Timeout x0"
        by (auto simp: isinstance_Timeout_def isinstance_RequestException_def)
      then have "r = Inl x0" "p' = q0" using run' t0 Inl False by auto
      then show ?thesis using f0 e0 False by (intro exI [of _ 0]) simp
    next
      case re0: True
      have run1: "attempts net [1, 2] (sleep retry_delay q0) = (r, p')"
        using run' t0 Inl re0 by (auto simp: max_retries_def split: if_splits)
      obtain r1 q1 where t1: "try_body (net 1) (sleep retry_delay q0) = (r1, q1)"
        by (cases "try_body (net 1) (sleep retry_delay q0)")
      have eff1: "effects q1 = effects p @ [Post, Sleep 5, Post]"
        using try_body_effects [of "net 1" "sleep retry_delay q0"] t1 f0 e0
        by (simp add: sleep_def retry_delay_def)
      show ?thesis
      proof (cases r1)
        case (Inr stops)
        then have "r = Inr stops" "p' = q1" using run1 t1 by auto
        then show ?thesis using try_body_Inr [OF t1 [unfolded Inr]] eff1 f0 re0
          by (intro exI [of _ 1]) simp
      next
        case (Inl x1)
        note f1 = try_body_Inl [OF t1 [unfolded Inl]]
        show ?thesis
        proof (cases "isinstance_RequestException x1")
          case False
          then have "\<not> isinstance_Timeout x1"
            by (auto simp: isinstance_Timeout_def isinstance_RequestException_def)
          then have "r = Inl x1" "p' = q1" using run1 t1 Inl False by auto
          then show ?thesis using f1 eff1 f0 re0 False by (intro exI [of _ 1]) simp
        next
          case re1: True
          have run2: "try_body (net 2) (sleep retry_delay q1) = (r, p')"
            using run1 t1 Inl re1 attempts_last [of net "sleep retry_delay q1"]
            by (auto simp: max_retries_def split: if_splits)
          have eff2: "effects p' = effects p @ [Post, Sleep 5, Post, Sleep 5, Post]"
            using try_body_effects [of "net 2" "sleep retry_delay q1"] run2 eff1
            by (simp add: sleep_def retry_delay_def)
          have prev: "\<forall>i<2. \<exists>e. raised (net i) = Some e \<and> isinstance_RequestException e"
            using f0 f1 re0 re1 by (auto simp: less_Suc_eq numeral_2_eq_2)
          have "case r of Inr stops \<Rightarrow> raised (net 2) = None
                | Inl e \<Rightarrow> raised (net 2) = Some e \<and> (isinstance_RequestException e \<longrightarrow> (2::nat) = 2)"
            using try_body_raised [of "net 2" "sleep retry_delay q1"] run2
            by (cases r) auto
          then show ?thesis using eff2 prev
            by (intro exI [of _ 2]) (simp add: numeral_2_eq_2)
        qed
      qed
    qed
  qed
qed

text \<open>A run with one timeout followed by an empty answer: two requests, one delay.\<close>

theorem C2_retry_loop_witness:
  "fetch_transport_stops (timeout_then_empty :: nat \<Rightarrow> double http_outcome) init_pipeline
     = (Inr [], init_pipeline\<lparr>api_calls := 1, effects := [Post, Sleep 5, Post]\<rparr>)
   \<and> (\<exists>k<3. [Post, Sleep 5, Post] = concat (replicate k [Post, Sleep 5]) @ [Post]
         \<and> (\<forall>i<k. \<exists>e. raised (timeout_then_empty i :: double http_outcome) = Some e
                    \<and> isinstance_RequestException e)
         \<and> raised (timeout_then_empty k :: double http_outcome) = None)"
proof -
  have run: "fetch_transport_stops (timeout_then_empty :: nat \<Rightarrow> double http_outcome) init_pipeline
     = (Inr [], init_pipeline\<lparr>api_calls := 1, effects := [Post, Sleep 5, Post]\<rparr>)"
    unfolding fetch_transport_stops_def range_max_retries
    by (simp add: timeout_then_empty_def max_retries_def retry_delay_def sleep_def try_body_def
        init_pipeline_def isinstance_Timeout_def isinstance_RequestException_def)
  show ?thesis using C2_retry_loop [OF run] run by (simp add: init_pipeline_def)
qed

section \<open>Metrics and statistics\<close>

lemma pct_defined: "tot \<noteq> 0 \<Longrightarrow> pct cnt tot = Inr (round2 (of_int cnt / of_int tot * 100))"
  by (simp add: pct_def truediv_def)

text \<open>
  C3, as stated, fails: for the empty collection the accessibility mapping is empty, so the
  percentages are absent rather than zero.
\<close>

theorem C3_empty_percentages_absent_counterexample:
  "calculate_metrics [] = Inr \<lparr> total_stops = 0, by_type = [], accessibility = [] \<rparr>
   \<and> map_of (accessibility (projr (calculate_metrics []))) ''wheelchair_pct'' \<noteq> Some 0
   \<and> map_of (accessibility (projr (calculate_metrics []))) ''wheelchair_pct'' = None"
  by (simp add: calculate_metrics_def)

text \<open>
  C3, amended. For the empty Stop collection the Metrics Aggregator returns total count 0, an
  empty mapping of counts by type and an empty accessibility mapping, in which none of the
  five percentages is present; no division by zero occurs, there or for any other collection.
\<close>

theorem C3_empty_metrics:
  "calculate_metrics [] = Inr \<lparr> total_stops = 0, by_type = [], accessibility = [] \<rparr>
   \<and> map_of (accessibility (projr (calculate_metrics []))) key = None
   \<and> calculate_metrics stops \<noteq> Inl ZeroDivisionError"
proof -
  have "calculate_metrics stops \<noteq> Inl ZeroDivisionError"
  proof (cases "stops = []")
    case True
    then show ?thesis by (simp add: calculate_metrics_def)
  next
    case False
    then have "int (length stops) \<noteq> 0" by simp
    then show ?thesis
      using False by (simp add: calculate_metrics_def Let_def pct_defined)
  qed
  then show ?thesis by (simp add: calculate_metrics_def)
qed


section \<open>The binary64 model\<close>

text \<open>
  Rounding is evaluated by unfolding, and preserves the sign; from that, the laws of float
  arithmetic hold of \<open>double_arith\<close>.
\<close>

lemma halvings_numeral:
  "halvings (numeral n) x = (if x < 2 then 0 else 1 + halvings (pred_numeral n) (x / 2))"
  by (simp add: numeral_eq_Suc)

lemma doublings_numeral:
  "doublings (numeral n) x = (if 1 \<le> x then 0 else doublings (pred_numeral n) (2 * x) - 1)"
  by (simp add: numeral_eq_Suc)

lemmas rnd_eval = rnd_def exponent_def pow2_def round_half_even_def halvings_numeral
  doublings_numeral Let_def

lemma rnd_0: "rnd 0 = Fin 0"
  by (simp add: rnd_def)

lemma rnd_1: "rnd 1 = Fin 1"
  by (simp add: rnd_eval)

lemma round_half_even_nonneg: "0 \<le> m \<Longrightarrow> 0 \<le> round_half_even m"
proof -
  assume "0 \<le> m"
  then have "0 \<le> \<lfloor>m\<rfloor>" by simp
  then show ?thesis by (simp add: round_half_even_def Let_def)
qed

lemma pow2_pos: "0 < pow2 e"
  by (simp add: pow2_def)

lemma rnd_nonneg: "0 \<le> x \<Longrightarrow> rnd x = PInf \<or> (\<exists>y. rnd x = Fin y \<and> 0 \<le> y)"
proof (cases "x = 0")
  case True
  then show ?thesis by (simp add: rnd_0)
next
  case False
  assume "0 \<le> x"
  with False have pos: "0 < x" by simp
  define ulp where "ulp = pow2 (exponent x - 52)"
  define y where "y = of_int (round_half_even (\<bar>x\<bar> / ulp)) * ulp"
  have "0 < ulp" unfolding ulp_def by (rule pow2_pos)
  then have "0 \<le> \<bar>x\<bar> / ulp" by simp
  then have "0 \<le> round_half_even (\<bar>x\<bar> / ulp)" by (rule round_half_even_nonneg)
  then have "0 \<le> y" using \<open>0 < ulp\<close> by (simp add: y_def)
  moreover have "rnd x = (if pow2 1024 \<le> y then PInf else Fin y)"
    using pos by (simp add: rnd_def Let_def ulp_def y_def)
  ultimately show ?thesis by auto
qed

lemma not_lt_zero: "\<not> d_lt a (Fin 0) \<longleftrightarrow> a = PInf \<or> a = NaN \<or> (\<exists>x. a = Fin x \<and> 0 \<le> x)"
  by (cases a) auto


lemma double_sign_laws: "sign_laws double_arith"
proof -
  have l1: "\<not> d_lt r (Fin 0)" if "d_mod x (Fin 1) = Inr r" for x r
  proof (cases x)
    case (Fin v)
    have "0 \<le> v - of_int \<lfloor>v\<rfloor>" by linarith
    from rnd_nonneg [OF this] show ?thesis
      using that Fin by (auto simp: d_mod_def)
  qed (use that in \<open>auto simp: d_mod_def\<close>)
  have l2: "\<not> d_lt (d_mul a (rnd (of_int n))) (Fin 0)" if "\<not> d_lt a (Fin 0)" "0 \<le> n" for a n
  proof -
    have n: "rnd (of_int n) = PInf \<or> (\<exists>y. rnd (of_int n) = Fin y \<and> 0 \<le> y)"
      using that(2) by (intro rnd_nonneg) simp
    from that(1) consider "a = PInf" | "a = NaN" | x where "a = Fin x" "0 \<le> x"
      by (auto simp: not_lt_zero)
    then show ?thesis
    proof cases
      case 1
      then show ?thesis using n by (auto simp: d_inf_def split: if_splits)
    next
      case 2
      then show ?thesis by simp
    next
      case 3
      from n show ?thesis
      proof
        assume "rnd (of_int n) = PInf"
        then show ?thesis using 3 by (auto simp: d_inf_def split: if_splits)
      next
        assume "\<exists>y. rnd (of_int n) = Fin y \<and> 0 \<le> y"
        then obtain y where y: "rnd (of_int n) = Fin y" "0 \<le> y" by blast
        have "0 \<le> x * y" using 3 y by simp
        from rnd_nonneg [OF this] show ?thesis using 3 y by auto
      qed
    qed
  qed
  have l3: "0 \<le> k" if "d_int x = Inr k" "\<not> d_lt x (Fin 0)" for x k
    using that by (cases x) (auto simp: d_int_def trunc_def)
  have c1: "\<forall>x r. d_mod x (Fin 1) = Inr r \<longrightarrow> \<not> d_lt r (Fin 0)"
    using l1 by blast
  have c2: "\<forall>a n. \<not> d_lt a (Fin 0) \<and> 0 \<le> n \<longrightarrow> \<not> d_lt (d_mul a (rnd (of_int n))) (Fin 0)"
    using l2 by blast
  have c3: "\<forall>x k. d_int x = Inr k \<and> \<not> d_lt x (Fin 0) \<longrightarrow> 0 \<le> k"
    using l3 by blast
  show ?thesis
    unfolding sign_laws_def using c1 c2 c3
    by (simp add: double_arith_def rnd_0 rnd_1)
qed

lemma rnd_tenth: "rnd 0.1 = Fin (7205759403792794 / 2 ^ 56)"
  by (simp add: rnd_eval)

lemma rnd_nine_tenths: "rnd 0.9 = Fin (8106479329266893 / 2 ^ 53)"
  by (simp add: rnd_eval)

lemma double_band_law: "band_law double_arith"
proof -
  have "\<not> d_lt (Fin (8106479329266893 / 2 ^ 53)) x" if "d_lt x (Fin (7205759403792794 / 2 ^ 56))" for x
    using that by (cases x) auto
  then show ?thesis
    unfolding band_law_def by (simp add: double_arith_def rnd_tenth rnd_nine_tenths)
qed


section \<open>Route topology\<close>

lemma lt_asym:
  assumes "lt_strict_order F" "f_lt F x y"
  shows "\<not> f_lt F y x"
  using assms unfolding lt_strict_order_def by blast










lemma sqrt_values:
  "sqrt 9 = 3" "sqrt 25 = 5" "sqrt (1 / 1152921504606846976) = 1 / 1073741824"
  by (rule real_sqrt_unique; simp add: power_divide)+

lemmas route_eval = generate_route_polyline_def nearest_loop.simps distance_def double_arith_def
  rnd_eval d_sub_def d_neg_def d_square_def d_root_def example_stop_def sqrt_values




text \<open>
  Rounding can make two distances equal: seen from \<open>A = (0, 0)\<close>, the stop
  \<open>X = (1, 2^-30)\<close> is farther than \<open>Y = (1, 0)\<close>, but both computed distances
  are 1.0, and \<open>min\<close> keeps the first of them.
\<close>

lemma route_with_rounded_tie:
  "generate_route_polyline double_arith tie_stops ''10''
   = Inr (Some ([(Fin 0, Fin 0), (Fin 1, Fin (1 / 2 ^ 30)), (Fin 1, Fin 0)],
        [example_stop ''A'' 0 0 [''10''], example_stop ''X'' 1 (1 / 2 ^ 30) [''10''],
         example_stop ''Y'' 1 0 [''10'']]))"
  by (simp add: route_eval tie_stops_def)

section \<open>Vehicle simulation\<close>

lemma getitem_in_range: "0 \<le> i \<Longrightarrow> i < int (length xs) \<Longrightarrow> getitem xs i = Inr (xs ! nat i)"
  by (simp add: getitem_def)

lemma randint_2_8: "2 \<le> randint 2 8 draw \<and> randint 2 8 draw \<le> 8"
proof -
  have "draw mod 7 < 7" by simp
  then show ?thesis by (simp add: randint_def)
qed

text \<open>The steps of \<open>progress\<close> and of \<open>current_segment\<close>, when none of them raises.\<close>

lemma progress_Inr:
  assumes "progress F v n now = Inr prog"
  obtains share seconds advance where
    "int_truediv F v n = Inr share"
    "f_mod F now (of_pyint F 60) = Inr seconds"
    "f_truediv F seconds (of_pyint F 600) = Inr advance"
    "f_mod F (f_add F share advance) (of_literal F 1) = Inr prog"
  using assms unfolding progress_def by (auto split: sum.splits)

lemma current_segment_Inr:
  assumes "current_segment F prog ts = Inr seg"
  obtains cs where "f_int F (f_mul F prog (of_pyint F ts)) = Inr cs"
    "seg = (if cs \<ge> ts then ts - 1 else cs)"
  using assms unfolding current_segment_def by (auto split: sum.splits)

text \<open>The segment index is an index of a segment: \<open>progress\<close> is not negative.\<close>

lemma segment_in_range:
  assumes laws: "sign_laws F"
    and prog: "progress F v n now = Inr prog"
    and seg: "current_segment F prog ts = Inr seg"
    and ts: "1 \<le> ts"
  shows "0 \<le> seg \<and> seg < ts"
proof -
  from prog obtain share seconds advance where
    m: "f_mod F (f_add F share advance) (of_literal F 1) = Inr prog"
    by (rule progress_Inr)
  from seg obtain cs where cs: "f_int F (f_mul F prog (of_pyint F ts)) = Inr cs"
    "seg = (if cs \<ge> ts then ts - 1 else cs)"
    by (rule current_segment_Inr)
  have "\<not> f_lt F prog (of_pyint F 0)"
    using laws m unfolding sign_laws_def by blast
  then have "\<not> f_lt F (f_mul F prog (of_pyint F ts)) (of_pyint F 0)"
    using laws ts unfolding sign_laws_def by simp
  then have "0 \<le> cs"
    using laws cs(1) unfolding sign_laws_def by blast
  then show ?thesis using cs(2) ts by simp
qed

text \<open>The snapshot in terms of the named notions.\<close>

lemma simulate_snapshot:
  fixes F :: "'f arith" and pts :: "('f \<times> 'f) list" and stops :: "'f transport_stop list"
  assumes laws: "sign_laws F" and pts: "2 \<le> length pts" and stops: "stops \<noteq> []"
    and prog: "progress F v n now = Inr prog"
    and seg: "current_segment F prog (int (length pts) - 1) = Inr seg"
  defines "lp \<equiv> local_progress F prog (int (length pts) - 1) seg"
  defines "l \<equiv> (if seg < int (length stops) then name (stops ! nat seg) else ''Unknown'')"
  defines "nx \<equiv> name (stops ! nat (min (seg + 1) (int (length stops) - 1)))"
  defines "at_stop \<equiv> f_lt F lp (of_literal F 0.1)"
  defines "arriving \<equiv> f_lt F (of_literal F 0.9) lp"
  shows "simulate_vehicle_position F pts stops v n now draw =
     Inr (Some \<lparr> position = interpolate F (pts ! nat seg) (pts ! nat (seg + 1)) lp,
                 last_stop = l,
                 current_stop = (if at_stop then l else if arriving then nx else l),
                 next_stop = nx,
                 status = (if at_stop then ''At Stop'' else if arriving then ''Arriving''
                           else ''In Transit''),
                 eta = (if at_stop then 0 else if arriving then 1 else randint 2 8 draw) \<rparr>)"
proof -
  define ts where "ts = int (length pts) - 1"
  have ts1: "1 \<le> ts" using pts by (simp add: ts_def)
  from prog obtain share seconds advance where steps:
    "int_truediv F v n = Inr share"
    "f_mod F now (of_pyint F 60) = Inr seconds"
    "f_truediv F seconds (of_pyint F 600) = Inr advance"
    "f_mod F (f_add F share advance) (of_literal F 1) = Inr prog"
    by (rule progress_Inr)
  from seg obtain cs where cs: "f_int F (f_mul F prog (of_pyint F ts)) = Inr cs"
    "seg = (if cs \<ge> ts then ts - 1 else cs)"
    unfolding ts_def by (rule current_segment_Inr)
  have rng: "0 \<le> seg" "seg < ts"
    using segment_in_range [OF laws prog seg [folded ts_def] ts1] by simp_all
  have cond: "(pts = [] \<or> length pts < 2) = False"
    using pts by auto
  have tsE: "int (length pts) - 1 = ts"
    by (simp add: ts_def)
  have segE: "(if ts \<le> cs then ts - 1 else cs) = seg"
    using cs(2) by simp
  have p1: "getitem pts seg = Inr (pts ! nat seg)"
    using rng by (intro getitem_in_range) (simp_all add: ts_def)
  have "min (seg + 1) ts = seg + 1"
    using rng by simp
  moreover have "getitem pts (seg + 1) = Inr (pts ! nat (seg + 1))"
    using rng by (intro getitem_in_range) (simp_all add: ts_def)
  ultimately have p2: "getitem pts (min (seg + 1) ts) = Inr (pts ! nat (seg + 1))"
    by simp
  have nxr: "0 \<le> min (seg + 1) (int (length stops) - 1)"
            "min (seg + 1) (int (length stops) - 1) < int (length stops)"
    using rng stops by (simp_all add: Suc_le_eq)
  have nxg: "getitem stops (min (seg + 1) (int (length stops) - 1))
             = Inr (stops ! nat (min (seg + 1) (int (length stops) - 1)))"
    using nxr by (rule getitem_in_range)
  have lg: "seg < int (length stops) \<Longrightarrow> getitem stops seg = Inr (stops ! nat seg)"
    using rng by (intro getitem_in_range) simp_all
  have lpc: "f_sub F (f_mul F prog (of_pyint F ts)) (of_pyint F seg) = lp"
    by (simp add: lp_def local_progress_def ts_def)
  have lE: "(if seg < int (length stops) then map_sum id name (getitem stops seg)
              else Inr ''Unknown'') = Inr l"
    using lg by (simp add: l_def)
  have nxE: "(if min (seg + 1) (int (length stops) - 1) < int (length stops)
              then map_sum id name (getitem stops (min (seg + 1) (int (length stops) - 1)))
              else Inr ''Terminal'') = Inr nx"
    using nxr(2) by (simp only: if_True nxg map_sum.simps nx_def)
  show ?thesis
    unfolding simulate_vehicle_position_def
    apply (simp only: cond if_False steps sum.case Let_def tsE cs(1))
    apply (simp only: segE)
    apply (simp only: lE nxE sum.case p1 p2 lpc at_stop_def [symmetric] arriving_def [symmetric])
    apply (simp add: interpolate_def)
    done
qed

text \<open>Evaluation of the simulator in the binary64 model.\<close>

lemmas sim_eval = simulate_vehicle_position_def double_arith_def rnd_eval d_int_truediv_def
  d_mod_def d_truediv_def d_sub_def d_neg_def d_int_def trunc_def getitem_def randint_def
  example_stop_def progress_def current_segment_def local_progress_def

text \<open>
  Vehicle 1 of 3 on a path of six points, 40 seconds into the minute: the float
  \<open>progress\<close> is \<open>0.39999999999999997\<close>, just below \<open>2/5\<close>, so the vehicle
  is still on the second segment, with \<open>local_progress = 0.9999999999999998\<close>.
\<close>

lemma progress_1_of_3:
  "progress double_arith 1 3 (Fin 40) = Inr (Fin (7205759403792793 / 18014398509481984))"
  by (simp add: sim_eval)

lemma segment_1_of_3:
  "current_segment double_arith (Fin (7205759403792793 / 18014398509481984))
     (int (length path6) - 1) = Inr 1"
  by (simp add: sim_eval path6_def)

lemma local_progress_1_of_3:
  "local_progress double_arith (Fin (7205759403792793 / 18014398509481984))
     (int (length path6) - 1) 1 = Fin (4503599627370495 / 4503599627370496)"
  by (simp add: sim_eval path6_def)

lemma snapshot_1_of_3:
  "simulate_vehicle_position double_arith path6 stops6 1 3 (Fin 40) 0
   = Inr (Some \<lparr> position = (Fin (9007199254740991 / 4503599627370496), Fin 0),
                  last_stop = ''S1'', current_stop = ''S2'', next_stop = ''S2'',
                  status = ''Arriving'', eta = 1 \<rparr>)"
  by (simp add: sim_eval path6_def stops6_def)

text \<open>
  Vehicle 9 of 10 on a path of three points, 30 seconds into the minute: the float
  \<open>local_progress\<close> is \<open>0.9000000000000001\<close>, above the float \<open>0.9\<close>.
\<close>

lemma snapshot_9_of_10:
  "simulate_vehicle_position double_arith path3 stops3 9 10 (Fin 30) 0
   = Inr (Some \<lparr> position = (Fin 0, Fin (5291729562160333 / 1125899906842624)),
                  last_stop = ''D'', current_stop = ''B'', next_stop = ''B'',
                  status = ''Arriving'', eta = 1 \<rparr>)"
  by (simp add: sim_eval path3_def stops3_def)

text \<open>
  \<open>x % 1.0\<close> can be \<open>1.0\<close>: for vehicle \<open>-1\<close> of \<open>10^20\<close> the float
  \<open>progress\<close> is 1, and the clamp of the segment index to the last segment is what keeps
  the index in range.
\<close>

lemma progress_can_be_one:
  "progress double_arith (- 1) (10 ^ 20) (Fin 0) = Inr (Fin 1)
   \<and> simulate_vehicle_position double_arith path3 stops3 (- 1) (10 ^ 20) (Fin 0) 0
     = Inr (Some \<lparr> position = (Fin 0, Fin 5), last_stop = ''D'', current_stop = ''B'',
                    next_stop = ''B'', status = ''Arriving'', eta = 1 \<rparr>)"
  by (simp add: sim_eval path3_def stops3_def)

text \<open>
  C7. Whenever \<open>local_progress\<close> is computed, that is, when the computations of
  \<open>progress\<close> and of the segment index raise no exception, on a path of at least two
  points with a stop for each point, the simulator returns a snapshot whose last and next
  stop are the names of the start and end stops of the current segment, whatever the status;
  with \<open>local_progress < 0.1\<close> the status is \<open>At Stop\<close> with ETA 0 and the current
  stop is the start stop; with \<open>local_progress > 0.9\<close> it is \<open>Arriving\<close> with ETA 1
  and the current stop is the end stop; otherwise it is \<open>In Transit\<close> with an ETA between
  2 and 8 and the current stop is the start stop. The comparisons are those of the floats,
  with the float literals \<open>0.1\<close> and \<open>0.9\<close>. The laws of the arithmetic that are used
  are proved of the binary64 model in \<open>double_sign_laws\<close> and \<open>double_band_law\<close>.
\<close>

theorem C7_status_by_local_progress:
  fixes F :: "'f arith" and pts :: "('f \<times> 'f) list" and stops :: "'f transport_stop list"
  assumes laws: "sign_laws F" and band: "band_law F"
    and pts: "2 \<le> length pts" and par: "length pts \<le> length stops"
    and prog: "progress F v n now = Inr prog"
    and seg: "current_segment F prog (int (length pts) - 1) = Inr seg"
  defines "lp \<equiv> local_progress F prog (int (length pts) - 1) seg"
  shows "\<exists>snap. simulate_vehicle_position F pts stops v n now draw = Inr (Some snap)
           \<and> 0 \<le> seg \<and> nat seg + 1 < length pts
           \<and> last_stop snap = name (stops ! nat seg)
           \<and> next_stop snap = name (stops ! (nat seg + 1))
           \<and> (f_lt F lp (of_literal F 0.1) \<longrightarrow> status snap = ''At Stop'' \<and> eta snap = 0
                  \<and> current_stop snap = name (stops ! nat seg))
           \<and> (f_lt F (of_literal F 0.9) lp \<longrightarrow> status snap = ''Arriving'' \<and> eta snap = 1
                  \<and> current_stop snap = name (stops ! (nat seg + 1)))
           \<and> (\<not> f_lt F lp (of_literal F 0.1) \<and> \<not> f_lt F (of_literal F 0.9) lp
                  \<longrightarrow> status snap = ''In Transit'' \<and> 2 \<le> eta snap \<and> eta snap \<le> 8
                  \<and> current_stop snap = name (stops ! nat seg))"
proof -
  have ts1: "1 \<le> int (length pts) - 1" using pts by simp
  have rng: "0 \<le> seg" "seg < int (length pts) - 1"
    using segment_in_range [OF laws prog seg ts1] by simp_all
  have stops: "stops \<noteq> []" using pts par by auto
  have in_range: "seg < int (length stops)" "seg + 1 \<le> int (length stops) - 1"
    using rng par by linarith+
  then have nx: "min (seg + 1) (int (length stops) - 1) = seg + 1" by simp
  have nat1: "nat (seg + 1) = nat seg + 1" using rng(1) by linarith
  have bound: "nat seg + 1 < length pts" using rng by linarith
  have excl: "f_lt F (of_literal F 0.9) lp \<Longrightarrow> \<not> f_lt F lp (of_literal F 0.1)"
    using band unfolding band_law_def by blast
  show ?thesis
    using simulate_snapshot [OF laws pts stops prog seg, of draw, folded lp_def]
      rng(1) bound in_range(1) randint_2_8 [of draw] excl
    by (auto simp: nx nat1)
qed

text \<open>
  The theorem at vehicle 1 of 3 on the path of six points, in the binary64 model, and a run
  for each of the other two statuses.
\<close>

theorem C7_status_by_local_progress_witness:
  "sign_laws double_arith \<and> band_law double_arith
   \<and> 2 \<le> length path6 \<and> length path6 \<le> length stops6
   \<and> progress double_arith 1 3 (Fin 40) = Inr (Fin (7205759403792793 / 18014398509481984))
   \<and> current_segment double_arith (Fin (7205759403792793 / 18014398509481984))
         (int (length path6) - 1) = Inr 1
   \<and> f_lt double_arith (of_literal double_arith 0.9)
         (local_progress double_arith (Fin (7205759403792793 / 18014398509481984))
            (int (length path6) - 1) 1)
   \<and> simulate_vehicle_position double_arith path6 stops6 1 3 (Fin 40) 0
     = Inr (Some \<lparr> position = (Fin (9007199254740991 / 4503599627370496), Fin 0),
                    last_stop = ''S1'', current_stop = ''S2'', next_stop = ''S2'',
                    status = ''Arriving'', eta = 1 \<rparr>)
   \<and> simulate_vehicle_position double_arith path3 stops3 0 1 (Fin 3) 0
     = Inr (Some \<lparr> position = (Fin 0, Fin (5764607523034235 / 288230376151711744)),
                    last_stop = ''A'', current_stop = ''A'', next_stop = ''D'',
                    status = ''At Stop'', eta = 0 \<rparr>)
   \<and> simulate_vehicle_position double_arith path3 stops3 1 2 (Fin 45) 12
     = Inr (Some \<lparr> position = (Fin 0, Fin (5516909543528857 / 2251799813685248)),
                    last_stop = ''D'', current_stop = ''D'', next_stop = ''B'',
                    status = ''In Transit'', eta = 7 \<rparr>)"
proof -
  have len: "2 \<le> length path6" "length path6 \<le> length stops6"
    by (simp_all add: path6_def stops6_def)
  have above: "f_lt double_arith (of_literal double_arith 0.9)
         (local_progress double_arith (Fin (7205759403792793 / 18014398509481984))
            (int (length path6) - 1) 1)"
    by (simp add: local_progress_1_of_3) (simp add: double_arith_def rnd_eval)
  have at_stop: "simulate_vehicle_position double_arith path3 stops3 0 1 (Fin 3) 0
     = Inr (Some \<lparr> position = (Fin 0, Fin (5764607523034235 / 288230376151711744)),
                    last_stop = ''A'', current_stop = ''A'', next_stop = ''D'',
                    status = ''At Stop'', eta = 0 \<rparr>)"
    by (simp add: sim_eval path3_def stops3_def)
  have in_transit: "simulate_vehicle_position double_arith path3 stops3 1 2 (Fin 45) 12
     = Inr (Some \<lparr> position = (Fin 0, Fin (5516909543528857 / 2251799813685248)),
                    last_stop = ''D'', current_stop = ''D'', next_stop = ''B'',
                    status = ''In Transit'', eta = 7 \<rparr>)"
    by (simp add: sim_eval path3_def stops3_def)
  show ?thesis
    using C7_status_by_local_progress [where F = double_arith and pts = path6
        and stops = stops6 and v = 1 and n = 3 and now = "Fin 40" and draw = 0,
        OF double_sign_laws double_band_law len progress_1_of_3 segment_1_of_3]
      double_sign_laws double_band_law len progress_1_of_3 segment_1_of_3 above
      snapshot_1_of_3 at_stop in_transit
    by simp
qed




section \<open>The backup copy of the dashboard\<close>

lemma nearest_loop_v5_eq: "nearest_loop_v5 F acc rem = nearest_loop F acc rem"
proof (induction F acc rem rule: nearest_loop.induct)
  case (1 F sorted_stops)
  show ?case by (simp add: nearest_loop.simps nearest_loop_v5.simps)
next
  case (2 F r remaining)
  show ?case by (simp add: nearest_loop.simps nearest_loop_v5.simps)
next
  case (3 F s sorted_stops r remaining)
  show ?case
  proof (cases "py_min (f_lt F) (distance F (last (s # sorted_stops))) (r # remaining)")
    case (Inl e)
    then show ?thesis
      by (subst nearest_loop.simps, subst nearest_loop_v5.simps) (simp only: Let_def sum.case)
  next
    case (Inr nearest)
    then show ?thesis
      using "3.IH" [OF refl Inr]
      by (subst nearest_loop.simps, subst nearest_loop_v5.simps) (simp only: Let_def sum.case)
  qed
qed

text \<open>
  C10. The functions \<open>generate_route_polyline\<close> and \<open>simulate_vehicle_position\<close>
  of \<open>dashboard_v5_backup.py\<close> return the same results as those of
  \<open>dashboard.py\<close> on all inputs, errors included, whatever the arithmetic.
\<close>

theorem C10_dashboard_copies_agree:
  "generate_route_polyline_v5 F stops route_name = generate_route_polyline F stops route_name
   \<and> simulate_vehicle_position_v5 F pts route_stops v n now draw
     = simulate_vehicle_position F pts route_stops v n now draw"
proof
  show "generate_route_polyline_v5 F stops route_name = generate_route_polyline F stops route_name"
    by (simp only: generate_route_polyline_v5_def generate_route_polyline_def nearest_loop_v5_eq)
  show "simulate_vehicle_position_v5 F pts route_stops v n now draw
     = simulate_vehicle_position F pts route_stops v n now draw"
    by (simp only: simulate_vehicle_position_v5_def simulate_vehicle_position_def Let_def)
qed

end
